theory Spec2Isabelle
  imports Main
begin

section \<open>JavaScript values\<close>

text \<open>
  The sources are TypeScript. Where a value is inspected at run time
  (\<^verbatim>\<open>typeof x === 'string'\<close>, \<^verbatim>\<open>typeof result !== 'boolean'\<close>) it is a
  \<open>jsval\<close>; where the type checker fixes it, it is the HOL type.
\<close>

datatype jsval =
    JUndefined
  | JNull
  | JBoolean bool
  | JNumber int
  | JString string
  | JObject

fun typeof :: "jsval \<Rightarrow> string" where
  "typeof JUndefined = ''undefined''"
| "typeof JNull = ''object''"
| "typeof (JBoolean b) = ''boolean''"
| "typeof (JNumber n) = ''number''"
| "typeof (JString s) = ''string''"
| "typeof JObject = ''object''"

fun truthy :: "jsval \<Rightarrow> bool" where
  "truthy JUndefined = False"
| "truthy JNull = False"
| "truthy (JBoolean b) = b"
| "truthy (JNumber n) = (n \<noteq> 0)"
| "truthy (JString s) = (s \<noteq> [])"
| "truthy JObject = True"

section \<open>The click handler of \<open>Link\<close>\<close>

text \<open>
  \<^verbatim>\<open>Link\<close> renders an anchor whose \<^verbatim>\<open>onClick\<close> is the listener below. The listener
  returns nothing; what it does is call \<^verbatim>\<open>event.preventDefault()\<close>, the caller's
  \<^verbatim>\<open>onClick(event)\<close> and \<^verbatim>\<open>navigate(to)\<close>. The model returns these calls in the order
  they are made. The caller's handler is a function from the event to the value it
  returns (a handler that throws leaves the listener at that call, after
  \<^verbatim>\<open>preventDefault\<close>; the model covers handlers that return).
\<close>

record mouse_event =
  button :: int
  altKey :: bool
  ctrlKey :: bool
  metaKey :: bool
  shiftKey :: bool

datatype effect = PreventDefault | CallOnClick | Navigate string

definition Link_onClick ::
  "string \<Rightarrow> (mouse_event \<Rightarrow> jsval) option \<Rightarrow> mouse_event \<Rightarrow> effect list" where
  "Link_onClick to onClick event =
     (if button event \<noteq> 0 \<or> altKey event \<or> ctrlKey event \<or> metaKey event \<or> shiftKey event
      then []
      else [PreventDefault] @
        (case onClick of
           Some handler \<Rightarrow>
             (let result = handler event
              in [CallOnClick] @
                 (if typeof result \<noteq> ''boolean'' \<or> truthy result then [Navigate to] else []))
         | None \<Rightarrow> [Navigate to]))"

section \<open>The type generator: \<open>generate\<close> and \<open>run\<close>\<close>

text \<open>
  \<^verbatim>\<open>generateGraphQLSchema\<close> and \<^verbatim>\<open>generateTypeDefs\<close> live in modules outside the
  sources at hand; \<^verbatim>\<open>generate\<close> awaits both, one after the other, and only reads the
  objects they resolve to. These two objects are the inputs of the model. An entry of
  an error list is the object \<^verbatim>\<open>{ message, error }\<close> that \<^verbatim>\<open>run\<close> destructures; the
  type \<open>'c\<close> of the underlying cause is left open.
\<close>

record 'c generate_error =
  message :: string
  error :: 'c

record 'c graphql_schema_result =
  schemaPath :: jsval
  generateGraphQLSchemaErrors :: "'c generate_error list"

record 'c type_defs_result =
  typeDefFiles :: "jsval list"
  generateTypeDefsErrors :: "'c generate_error list"

record 'c generate_result =
  files :: "jsval list"
  errors :: "'c generate_error list"

definition generate ::
  "'c graphql_schema_result \<Rightarrow> 'c type_defs_result \<Rightarrow> 'c generate_result" where
  "generate schema typeDefs =
     (let files = [];
          files = (if schemaPath schema \<noteq> JString '''' then files @ [schemaPath schema] else files);
          files = filter (\<lambda>x. typeof x = ''string'') (files @ typeDefFiles typeDefs)
      in \<lparr> files = files,
           errors = generateGraphQLSchemaErrors schema @ generateTypeDefsErrors typeDefs \<rparr>)"

text \<open>
  \<^verbatim>\<open>run\<close> writes to the console and may set \<^verbatim>\<open>process.exitCode\<close>. The process is
  the state: the exit code (\<open>None\<close> for \<^verbatim>\<open>undefined\<close>) and the console calls made so
  far, oldest first.
\<close>

datatype 'c console_arg = Str string | Cause 'c

datatype 'c console_call = Log "'c console_arg list" | LogError "'c console_arg list"

record 'c process =
  exitCode :: "int option"
  console :: "'c console_call list"

datatype run_error = TypeError

definition console_log :: "'c console_arg list \<Rightarrow> 'c process \<Rightarrow> 'c process" where
  "console_log args p = p\<lparr>console := console p @ [Log args]\<rparr>"

definition console_error :: "'c console_arg list \<Rightarrow> 'c process \<Rightarrow> 'c process" where
  "console_error args p = p\<lparr>console := console p @ [LogError args]\<rparr>"

text \<open>
  \<^verbatim>\<open>s.replace(pattern, replacement)\<close> with a string pattern replaces the first
  occurrence of the pattern, if there is one.
\<close>

fun starts_with :: "string \<Rightarrow> string \<Rightarrow> bool" where
  "starts_with s [] = True"
| "starts_with [] (p # ps) = False"
| "starts_with (c # cs) (p # ps) = (c = p \<and> starts_with cs ps)"

fun replace :: "string \<Rightarrow> string \<Rightarrow> string \<Rightarrow> string" where
  "replace [] pat rep = (if pat = [] then rep else [])"
| "replace (c # cs) pat rep =
     (if starts_with (c # cs) pat then rep @ drop (length pat) (c # cs)
      else c # replace cs pat rep)"

text \<open>
  The loop \<^verbatim>\<open>for (const f of files) console.log('-', f.replace(base + '/', ''))\<close>.
  \<^verbatim>\<open>f.replace\<close> exists on strings only: on any other value the call throws a
  \<^verbatim>\<open>TypeError\<close>, with the lines printed so far already on the console.
\<close>

fun print_files ::
  "string \<Rightarrow> jsval list \<Rightarrow> 'c process \<Rightarrow> (run_error \<times> 'c process) + 'c process" where
  "print_files base [] p = Inr p"
| "print_files base (f # fs) p =
     (case f of
        JString s \<Rightarrow> print_files base fs (console_log [Str ''-'', Str (replace s (base @ ''/'') '''')] p)
      | _ \<Rightarrow> Inl (TypeError, p))"

text \<open>The loop over \<^verbatim>\<open>errors\<close>: message, blank line, cause, blank line.\<close>

fun print_errors :: "'c generate_error list \<Rightarrow> 'c process \<Rightarrow> 'c process" where
  "print_errors [] p = p"
| "print_errors (e # es) p =
     print_errors es
       (console_log []
         (console_error [Cause (error e)]
           (console_log []
             (console_error [Str (message e)] p))))"

text \<open>\<^verbatim>\<open>process.exitCode ||= 1\<close>: assign only when the current value is falsy.\<close>

definition exitCode_or_assign :: "int \<Rightarrow> 'c process \<Rightarrow> 'c process" where
  "exitCode_or_assign n p =
     (case exitCode p of
        None \<Rightarrow> p\<lparr>exitCode := Some n\<rparr>
      | Some c \<Rightarrow> if c = 0 then p\<lparr>exitCode := Some n\<rparr> else p)"

definition run ::
  "string \<Rightarrow> 'c graphql_schema_result \<Rightarrow> 'c type_defs_result \<Rightarrow> 'c process
     \<Rightarrow> (run_error \<times> 'c process) + 'c process" where
  "run base schema typeDefs p0 =
     (let p = console_log [Str ''Generating...''] p0;
          p = console_log [] p;
          g = generate schema typeDefs
      in case print_files base (files g) p of
           Inl e \<Rightarrow> Inl e
         | Inr p \<Rightarrow>
             (let p = console_log [] p
              in if length (errors g) = 0
                 then Inr (console_log [] (console_log [Str ''... done.''] p))
                 else
                   (let p = exitCode_or_assign 1 p;
                        p = console_log [Str ''... done with errors.''] p;
                        p = console_log [] p
                    in Inr (print_errors (errors g) p))))"

text \<open>
  The status a process ends with when it ends on its own: \<^verbatim>\<open>process.exitCode\<close>, and
  0 while that is still \<^verbatim>\<open>undefined\<close>.
\<close>

definition exit_status :: "'c process \<Rightarrow> int" where
  "exit_status p = (case exitCode p of None \<Rightarrow> 0 | Some c \<Rightarrow> c)"

text \<open>What the loop over \<^verbatim>\<open>errors\<close> prints for one error.\<close>

definition print_error_lines :: "'c generate_error \<Rightarrow> 'c console_call list" where
  "print_error_lines e = [LogError [Str (message e)], Log [], LogError [Cause (error e)], Log []]"

section \<open>Resolving the options of the API server\<close>

text \<open>
  \<^verbatim>\<open>resolveOptions(options, args)\<close> of \<^verbatim>\<open>createServerHelpers.ts\<close>. What the function
  takes from outside its file is an input of the model, gathered in the record
  \<open>environment\<close>: the results of \<^verbatim>\<open>getAPIHost()\<close> and \<^verbatim>\<open>getAPIPort()\<close>, the default
  logger (its level is read from the process environment), Node's \<^verbatim>\<open>parseArgs\<close>
  (it returns the \<^verbatim>\<open>values\<close> or throws), the conversion \<^verbatim>\<open>+s\<close> of a string to a
  number, and \<^verbatim>\<open>coerceRootPath\<close>, which is imported from another package.

  A number is \<^verbatim>\<open>NaN\<close> or a value of an open type \<open>'n\<close>. The three options are declared
  to \<^verbatim>\<open>parseArgs\<close> with \<^verbatim>\<open>type: 'string'\<close>, so each of the \<^verbatim>\<open>values\<close> is a string or
  \<^verbatim>\<open>undefined\<close>; the guards \<^verbatim>\<open>values.host && typeof values.host !== 'string'\<close> and
  \<^verbatim>\<open>values.apiRootPath && typeof values.apiRootPath !== 'string'\<close> are then never true
  and have no branch here. A string is truthy when it is not empty.

  The function also writes to its argument (\<^verbatim>\<open>options.logger ??= ...\<close>, and the
  merge into \<^verbatim>\<open>options.fastifyServerOptions\<close> when the caller passed one); the model
  returns the resolved options and leaves the caller's object out.
\<close>

datatype 'n number = NaN | Num 'n

datatype 'e thrown = Error string | ParseArgsThrew 'e

record 'l fastify_server_options =
  requestTimeout :: "int option"
  fastify_logger :: "'l option"

record 'l create_server_options =
  options_apiRootPath :: "string option"
  options_logger :: "'l option"
  options_fastifyServerOptions :: "'l fastify_server_options option"
  options_parseArgs :: "bool option"

record parsed_values =
  values_host :: "string option"
  values_port :: "string option"
  values_apiRootPath :: "string option"

record ('l, 'n) resolved_options =
  apiRootPath :: string
  fastifyServerOptions :: "'l fastify_server_options"
  host :: string
  port :: "'n number"

record ('l, 'n, 'e) environment =
  DEFAULT_logger :: 'l
  getAPIHost :: string
  getAPIPort :: "'n number"
  util_parseArgs :: "string list option \<Rightarrow> 'e + parsed_values"
  toNumber :: "string \<Rightarrow> 'n number"
  coerceRootPath :: "string \<Rightarrow> string"

definition DEFAULT_apiRootPath :: string where
  "DEFAULT_apiRootPath = ''/''"

definition DEFAULT_requestTimeout :: int where
  "DEFAULT_requestTimeout = 15000"

definition port_must_be_an_integer :: string where
  "port_must_be_an_integer = ''`port` must be an integer''"

text \<open>The body of \<^verbatim>\<open>if (options.parseArgs) { ... }\<close> after the call of \<^verbatim>\<open>parseArgs\<close>.\<close>

definition apply_values ::
  "('l, 'n, 'e) environment \<Rightarrow> parsed_values \<Rightarrow> ('l, 'n) resolved_options
     \<Rightarrow> 'e thrown + ('l, 'n) resolved_options" where
  "apply_values env values resolvedOptions =
     (let r = (case values_host values of
                 Some h \<Rightarrow> if h \<noteq> [] then resolvedOptions\<lparr>host := h\<rparr> else resolvedOptions
               | None \<Rightarrow> resolvedOptions)
      in case (case values_port values of
                 Some p \<Rightarrow>
                   if p \<noteq> []
                   then (let r = r\<lparr>port := toNumber env p\<rparr>
                         in if port r = NaN then Inl (Error port_must_be_an_integer) else Inr r)
                   else Inr r
               | None \<Rightarrow> Inr r) of
           Inl e \<Rightarrow> Inl e
         | Inr r \<Rightarrow>
             Inr (case values_apiRootPath values of
                    Some a \<Rightarrow> if a \<noteq> [] then r\<lparr>apiRootPath := a\<rparr> else r
                  | None \<Rightarrow> r))"

definition resolveOptions ::
  "('l, 'n, 'e) environment \<Rightarrow> 'l create_server_options \<Rightarrow> string list option
     \<Rightarrow> 'e thrown + ('l, 'n) resolved_options" where
  "resolveOptions env options args =
     (let logger = (case options_logger options of None \<Rightarrow> DEFAULT_logger env | Some l \<Rightarrow> l);
          resolvedOptions =
            \<lparr> apiRootPath =
                (case options_apiRootPath options of None \<Rightarrow> DEFAULT_apiRootPath | Some a \<Rightarrow> a),
              fastifyServerOptions =
                (case options_fastifyServerOptions options of
                   None \<Rightarrow> \<lparr> requestTimeout = Some DEFAULT_requestTimeout,
                              fastify_logger = Some logger \<rparr>
                 | Some f \<Rightarrow> f),
              host = getAPIHost env,
              port = getAPIPort env \<rparr>;
          fso = fastifyServerOptions resolvedOptions;
          fso = (case requestTimeout fso of
                   None \<Rightarrow> fso\<lparr>requestTimeout := Some DEFAULT_requestTimeout\<rparr>
                 | Some t \<Rightarrow> fso);
          fso = fso\<lparr>fastify_logger := Some logger\<rparr>;
          resolvedOptions = resolvedOptions\<lparr>fastifyServerOptions := fso\<rparr>
      in case (if options_parseArgs options = Some True
               then (case util_parseArgs env args of
                       Inl e \<Rightarrow> Inl (ParseArgsThrew e)
                     | Inr values \<Rightarrow> apply_values env values resolvedOptions)
               else Inr resolvedOptions) of
           Inl e \<Rightarrow> Inl e
         | Inr r \<Rightarrow> Inr (r\<lparr>apiRootPath := coerceRootPath env (apiRootPath r)\<rparr>))"

text \<open>
  An environment for the concrete cases below. Its conversion to a number is
  ECMAScript's on the strings it is used on: the empty string converts to 0, a string
  of decimal digits to the integer it writes, and a string such as \<^verbatim>\<open>abc\<close> to
  \<^verbatim>\<open>NaN\<close>. (Signs, fractions, exponents, other radixes and surrounding white space,
  which ECMAScript also reads, are not covered by it and not used below.) Its
  \<^verbatim>\<open>coerceRootPath\<close> adds the leading and the trailing slash that are missing.
\<close>

definition is_digit :: "char \<Rightarrow> bool" where
  "is_digit c = ((48::nat) \<le> of_char c \<and> of_char c \<le> (57::nat))"

definition decimal_toNumber :: "string \<Rightarrow> int number" where
  "decimal_toNumber s =
     (if list_all is_digit s
      then Num (foldl (\<lambda>n c. 10 * n + (int (of_char c) - 48)) 0 s)
      else NaN)"

definition slash_rootPath :: "string \<Rightarrow> string" where
  "slash_rootPath p =
     (if p = [] then ''//''
      else (if hd p \<noteq> CHR ''/'' then ''/'' else '''') @ p @ (if last p \<noteq> CHR ''/'' then ''/'' else ''''))"

definition example_environment ::
  "parsed_values \<Rightarrow> (string, int, string) environment" where
  "example_environment values =
     \<lparr> DEFAULT_logger = ''warn'',
       getAPIHost = ''::'',
       getAPIPort = Num 8911,
       util_parseArgs = (\<lambda>args. Inr values),
       toNumber = decimal_toNumber,
       coerceRootPath = slash_rootPath \<rparr>"

section \<open>The route table editor of the destroy command\<close>

text \<open>
  The destroy command for pages (\<^verbatim>\<open>tasks\<close> and the route clean-up it runs) is not
  among the sources at hand; only its test is. What the test fixes is the route table
  it starts from and the table it expects after the second task has run. The editor
  below follows the words of the specification (section 4.4 and the data model).
\<close>

text \<open>
  Modelled from the spec: the route editor's view of the route table as lines
  (``locates a line in the route-table text''). A line ends at a line feed, as in the
  tables of the test, which are built with \<^verbatim>\<open>join('\n')\<close>; \<open>split_lines\<close> is
  \<^verbatim>\<open>text.split('\n')\<close>.
\<close>

definition newline :: char where
  "newline = CHR 0x0A"

fun split_lines :: "string \<Rightarrow> string list" where
  "split_lines [] = [[]]"
| "split_lines (c # cs) =
     (if c = newline then [] # split_lines cs
      else (case split_lines cs of
              l # ls \<Rightarrow> (c # l) # ls
            | [] \<Rightarrow> [[c]]))"

text \<open>
  Modelled from the spec: the route editor's way back from lines to text
  (``preserving all other lines and line-ending/joining conventions verbatim''):
  \<^verbatim>\<open>lines.join('\n')\<close>.
\<close>

fun join_lines :: "string list \<Rightarrow> string" where
  "join_lines [] = []"
| "join_lines [l] = l"
| "join_lines (l # m # ls) = l @ newline # join_lines (m # ls)"

text \<open>
  Modelled from the spec: the destroy target as the route editor sees it, the path
  and the name that a route entry of the target carries (``a route entry is
  identified by its path/name attributes''). How the two are derived from the entity
  name and the options is the resolver's business, which is not in the sources.
\<close>

record route_target =
  route_path :: string
  route_name :: string

text \<open>
  Modelled from the spec: the editor's pattern match (``removed via pattern matching
  rather than parsing into an AST''). \<open>contains line pat\<close> is \<^verbatim>\<open>line.includes(pat)\<close>; a
  line has an attribute when it contains the attribute written as in the tables of
  the test, \<^verbatim>\<open>path="/about"\<close>.
\<close>

fun contains :: "string \<Rightarrow> string \<Rightarrow> bool" where
  "contains [] pat = (pat = [])"
| "contains (c # cs) pat = (starts_with (c # cs) pat \<or> contains cs pat)"

definition double_quote :: char where
  "double_quote = CHR 0x22"

definition has_attribute :: "string \<Rightarrow> string \<Rightarrow> string \<Rightarrow> bool" where
  "has_attribute attr v line =
     contains line (attr @ ''='' @ [double_quote] @ v @ [double_quote])"

text \<open>
  Modelled from the spec: when a line of the route table matches the target (``a
  line in the route-table text matching the target's path or name attribute'').
\<close>

definition matches_target :: "route_target \<Rightarrow> string \<Rightarrow> bool" where
  "matches_target rt line =
     (has_attribute ''path'' (route_path rt) line \<or> has_attribute ''name'' (route_name rt) line)"

text \<open>
  Modelled from the spec: the route table editor on the text (``locates a line ...
  and removes exactly that line''): the first matching line is dropped, the others
  are joined again as they were. With no matching line nothing is dropped.
\<close>

fun remove_first :: "('a \<Rightarrow> bool) \<Rightarrow> 'a list \<Rightarrow> 'a list" where
  "remove_first P [] = []"
| "remove_first P (x # xs) = (if P x then xs else x # remove_first P xs)"

definition remove_route_line :: "route_target \<Rightarrow> string \<Rightarrow> string" where
  "remove_route_line rt table =
     join_lines (remove_first (matches_target rt) (split_lines table))"

text \<open>
  Modelled from the spec: the route-edit task of the destroy command (``rewrite the
  route table text to remove the matching route line''), on a file system that maps
  a path to the text of the file there. A route table that cannot be read is a
  failure of the task (``per-task failure (file missing, write denied)''); a table
  with no matching line is not (``a tolerated no-op, not an error'').
\<close>

type_synonym file_system = "string \<rightharpoonup> string"

datatype task_failure = FileMissing string

definition edit_routes ::
  "string \<Rightarrow> route_target \<Rightarrow> file_system \<Rightarrow> task_failure + file_system" where
  "edit_routes routes rt fs =
     (case fs routes of
        None \<Rightarrow> Inl (FileMissing routes)
      | Some table \<Rightarrow> Inr (fs(routes \<mapsto> remove_route_line rt table)))"

text \<open>The route table of the test, and what the test expects of it.\<close>

definition test_routes :: string where
  \<open>test_routes = join_lines
     [''<Routes>'',
      ''  <Route path="/about" page={AboutPage} name="about" />'',
      ''  <Route path="/" page={HomePage} name="home" />'',
      ''  <Route notfound page={NotFoundPage} />'',
      ''</Routes>'']\<close>

definition test_routes_expected :: string where
  \<open>test_routes_expected = join_lines
     [''<Routes>'',
      ''  <Route path="/" page={HomePage} name="home" />'',
      ''  <Route notfound page={NotFoundPage} />'',
      ''</Routes>'']\<close>

section \<open>Properties of the click handler\<close>

lemma boolean_false_iff: "(typeof r = ''boolean'' \<and> \<not> truthy r) = (r = JBoolean False)"
  by (cases r) auto

text \<open>
  C10. A click with a button other than the primary one, or with alt, ctrl, meta or
  shift held, makes the listener return at once: no \<^verbatim>\<open>preventDefault\<close>, no handler
  call, no \<^verbatim>\<open>navigate\<close>. Every other click first prevents the default; with no
  handler it then navigates to \<open>to\<close>; with a handler it calls the handler and then
  navigates to \<open>to\<close> unless the handler returned the boolean \<^verbatim>\<open>false\<close>.
\<close>

theorem Link_onClick_click:
  "(button ev \<noteq> 0 \<or> altKey ev \<or> ctrlKey ev \<or> metaKey ev \<or> shiftKey ev
      \<longrightarrow> Link_onClick to onClick ev = [])
   \<and> (button ev = 0 \<and> \<not> altKey ev \<and> \<not> ctrlKey ev \<and> \<not> metaKey ev \<and> \<not> shiftKey ev
      \<longrightarrow> (case onClick of
             None \<Rightarrow> Link_onClick to onClick ev = [PreventDefault, Navigate to]
           | Some handler \<Rightarrow>
               if handler ev = JBoolean False
               then Link_onClick to onClick ev = [PreventDefault, CallOnClick]
               else Link_onClick to onClick ev = [PreventDefault, CallOnClick, Navigate to]))"
  by (cases onClick) (simp_all add: Link_onClick_def Let_def boolean_false_iff)

theorem Link_onClick_click_witness:
  "Link_onClick ''/about'' None
     \<lparr>button = 0, altKey = False, ctrlKey = True, metaKey = False, shiftKey = False\<rparr> = []
   \<and> Link_onClick ''/about'' (Some (\<lambda>e. JUndefined))
     \<lparr>button = 1, altKey = False, ctrlKey = False, metaKey = False, shiftKey = False\<rparr> = []
   \<and> Link_onClick ''/about'' None
     \<lparr>button = 0, altKey = False, ctrlKey = False, metaKey = False, shiftKey = False\<rparr>
       = [PreventDefault, Navigate ''/about'']
   \<and> Link_onClick ''/about'' (Some (\<lambda>e. JBoolean False))
     \<lparr>button = 0, altKey = False, ctrlKey = False, metaKey = False, shiftKey = False\<rparr>
       = [PreventDefault, CallOnClick]
   \<and> Link_onClick ''/about'' (Some (\<lambda>e. JUndefined))
     \<lparr>button = 0, altKey = False, ctrlKey = False, metaKey = False, shiftKey = False\<rparr>
       = [PreventDefault, CallOnClick, Navigate ''/about'']"
  using
    Link_onClick_click [of "\<lparr>button = 0, altKey = False, ctrlKey = True, metaKey = False, shiftKey = False\<rparr>"
      "''/about''" None]
    Link_onClick_click [of "\<lparr>button = 1, altKey = False, ctrlKey = False, metaKey = False, shiftKey = False\<rparr>"
      "''/about''" "Some (\<lambda>e. JUndefined)"]
    Link_onClick_click [of "\<lparr>button = 0, altKey = False, ctrlKey = False, metaKey = False, shiftKey = False\<rparr>"
      "''/about''" None]
    Link_onClick_click [of "\<lparr>button = 0, altKey = False, ctrlKey = False, metaKey = False, shiftKey = False\<rparr>"
      "''/about''" "Some (\<lambda>e. JBoolean False)"]
    Link_onClick_click [of "\<lparr>button = 0, altKey = False, ctrlKey = False, metaKey = False, shiftKey = False\<rparr>"
      "''/about''" "Some (\<lambda>e. JUndefined)"]
  by simp

section \<open>Properties of \<open>generate\<close> and \<open>run\<close>\<close>

lemma typeof_string_iff: "(typeof x = ''string'') = (\<exists>s. x = JString s)"
  by (cases x) simp_all

lemma generate_files_strings: "\<forall>x \<in> set (files (generate s t)). typeof x = ''string''"
  by (auto simp: generate_def Let_def)

lemma generate_errors:
  "errors (generate s t) = generateGraphQLSchemaErrors s @ generateTypeDefsErrors t"
  by (simp add: generate_def Let_def)

text \<open>
  C8. Whatever the two generators resolve to, the \<^verbatim>\<open>files\<close> that \<^verbatim>\<open>generate\<close> returns
  are strings only: the schema path when it is a string other than \<^verbatim>\<open>''\<close>, followed
  by the string entries of \<^verbatim>\<open>typeDefFiles\<close> in their order; and the \<^verbatim>\<open>errors\<close> are
  the errors of the schema generation followed by those of the type definitions.
\<close>

theorem generate_files_errors:
  "files (generate s t) =
      (case schemaPath s of
         JString p \<Rightarrow> if p = [] then [] else [JString p]
       | _ \<Rightarrow> [])
      @ filter (\<lambda>x. typeof x = ''string'') (typeDefFiles t)
   \<and> (\<forall>x \<in> set (files (generate s t)). \<exists>str. x = JString str)
   \<and> errors (generate s t) = generateGraphQLSchemaErrors s @ generateTypeDefsErrors t"
  by (cases "schemaPath s") (auto simp: generate_def Let_def typeof_string_iff)

theorem generate_files_errors_witness:
  "files (generate
      \<lparr>schemaPath = JString '''',
       generateGraphQLSchemaErrors = [\<lparr>message = ''Schema validation failed'', error = ''E1''\<rparr>]\<rparr>
      \<lparr>typeDefFiles = [JString ''/app/.redwood/types/includes/all-pages.d.ts'', JUndefined,
                       JString ''/app/.redwood/types/includes/web-routerRoutes.d.ts''],
       generateTypeDefsErrors = [\<lparr>message = ''Error generating types'', error = ''E2''\<rparr>]\<rparr>)
     = [JString ''/app/.redwood/types/includes/all-pages.d.ts'',
        JString ''/app/.redwood/types/includes/web-routerRoutes.d.ts'']
   \<and> errors (generate
      \<lparr>schemaPath = JString '''',
       generateGraphQLSchemaErrors = [\<lparr>message = ''Schema validation failed'', error = ''E1''\<rparr>]\<rparr>
      \<lparr>typeDefFiles = [JString ''/app/.redwood/types/includes/all-pages.d.ts'', JUndefined,
                       JString ''/app/.redwood/types/includes/web-routerRoutes.d.ts''],
       generateTypeDefsErrors = [\<lparr>message = ''Error generating types'', error = ''E2''\<rparr>]\<rparr>)
     = [\<lparr>message = ''Schema validation failed'', error = ''E1''\<rparr>,
        \<lparr>message = ''Error generating types'', error = ''E2''\<rparr>]"
  using generate_files_errors
    [of "\<lparr>schemaPath = JString '''',
           generateGraphQLSchemaErrors = [\<lparr>message = ''Schema validation failed'', error = ''E1''\<rparr>]\<rparr>"
        "\<lparr>typeDefFiles = [JString ''/app/.redwood/types/includes/all-pages.d.ts'', JUndefined,
                           JString ''/app/.redwood/types/includes/web-routerRoutes.d.ts''],
           generateTypeDefsErrors = [\<lparr>message = ''Error generating types'', error = ''E2''\<rparr>]\<rparr>"]
  by simp

lemma print_files_strings:
  "\<forall>x \<in> set fs. typeof x = ''string'' \<Longrightarrow>
     \<exists>out. print_files base fs p = Inr (p\<lparr>console := console p @ out\<rparr>) \<and> length out = length fs"
proof (induction fs arbitrary: p)
  case Nil
  then show ?case by simp
next
  case (Cons f fs)
  from Cons.prems obtain s where f: "f = JString s"
    by (auto simp: typeof_string_iff)
  let ?p = "console_log [Str ''-'', Str (replace s (base @ ''/'') '''')] p"
  from Cons.prems have "\<forall>x \<in> set fs. typeof x = ''string''" by simp
  from Cons.IH [OF this, of ?p] obtain out where
    out: "print_files base fs ?p = Inr (?p\<lparr>console := console ?p @ out\<rparr>)" "length out = length fs"
    by blast
  have "print_files base (f # fs) p
          = Inr (p\<lparr>console := console p @ (Log [Str ''-'', Str (replace s (base @ ''/'') '''')] # out)\<rparr>)"
    using out(1) by (simp add: f console_log_def)
  with out(2) show ?case by (metis length_Cons)
qed

lemma print_errors_console:
  "print_errors es p = p\<lparr>console := console p @ concat (map print_error_lines es)\<rparr>"
  by (induction es arbitrary: p)
     (simp_all add: console_log_def console_error_def print_error_lines_def)

text \<open>
  C4, as amended. Every run returns (the \<^verbatim>\<open>TypeError\<close> of the file loop cannot
  happen, since \<^verbatim>\<open>generate\<close> returns strings only). The errors of both generators
  are collected, those of the schema first. The exit status is non-zero exactly when
  an error was collected or the exit code was already non-zero before the run:
  \<^verbatim>\<open>process.exitCode ||= 1\<close> is reached only with errors and keeps a code that is set.
  The console ends with \<^verbatim>\<open>... done.\<close> when there is no error, and otherwise with
  \<^verbatim>\<open>... done with errors.\<close> followed, for each error in order, by its message, a
  blank line, its cause and a blank line.
\<close>

theorem run_reports_errors:
  "\<exists>p' lines.
      run base s t p = Inr p'
    \<and> (exit_status p' \<noteq> 0) = (errors (generate s t) \<noteq> [] \<or> exit_status p \<noteq> 0)
    \<and> length lines = length (files (generate s t))
    \<and> console p' = console p @ [Log [Str ''Generating...''], Log []] @ lines @ [Log []] @
         (if errors (generate s t) = [] then [Log [Str ''... done.''], Log []]
          else [Log [Str ''... done with errors.''], Log []]
               @ concat (map print_error_lines (errors (generate s t))))
    \<and> errors (generate s t) = generateGraphQLSchemaErrors s @ generateTypeDefsErrors t
    \<and> (\<exists>pre. files (generate s t) = pre @ filter (\<lambda>x. typeof x = ''string'') (typeDefFiles t))"
proof -
  let ?g = "generate s t"
  let ?p1 = "console_log [] (console_log [Str ''Generating...''] p)"
  obtain lines where
    lines: "print_files base (files ?g) ?p1 = Inr (?p1\<lparr>console := console ?p1 @ lines\<rparr>)"
    and len: "length lines = length (files ?g)"
    using print_files_strings [OF generate_files_strings] by blast
  have typeDefs: "\<exists>pre. files ?g = pre @ filter (\<lambda>x. typeof x = ''string'') (typeDefFiles t)"
    by (simp add: generate_def Let_def)
  show ?thesis
  proof (cases "errors ?g = []")
    case True
    then have "run base s t p
        = Inr (p\<lparr>console := console p @ [Log [Str ''Generating...''], Log []] @ lines @ [Log []]
                   @ [Log [Str ''... done.''], Log []]\<rparr>)"
      using lines by (simp add: run_def Let_def console_log_def)
    with True len typeDefs show ?thesis
      by (simp add: exit_status_def generate_errors)
  next
    case False
    then have "run base s t p
        = Inr (exitCode_or_assign 1 p
                 \<lparr>console := console p @ [Log [Str ''Generating...''], Log []] @ lines @ [Log []]
                   @ [Log [Str ''... done with errors.''], Log []]
                   @ concat (map print_error_lines (errors ?g))\<rparr>)"
      using lines
      by (simp add: run_def Let_def console_log_def print_errors_console exitCode_or_assign_def
            split: option.splits)
    with False len typeDefs show ?thesis
      by (simp add: exit_status_def generate_errors exitCode_or_assign_def split: option.splits)
  qed
qed

theorem run_reports_errors_witness:
  "\<exists>p' lines.
      run ''/app''
        \<lparr>schemaPath = JString '''',
         generateGraphQLSchemaErrors = [\<lparr>message = ''Schema validation failed'', error = ''E1''\<rparr>]\<rparr>
        \<lparr>typeDefFiles = [JString ''/app/.redwood/types/includes/all-pages.d.ts''],
         generateTypeDefsErrors = [\<lparr>message = ''Error generating types'', error = ''E2''\<rparr>]\<rparr>
        \<lparr>exitCode = None, console = []\<rparr> = Inr p'
    \<and> exit_status p' \<noteq> 0
    \<and> length lines = 1
    \<and> console p' = [Log [Str ''Generating...''], Log []] @ lines @
        [Log [],
         Log [Str ''... done with errors.''], Log [],
         LogError [Str ''Schema validation failed''], Log [], LogError [Cause ''E1''], Log [],
         LogError [Str ''Error generating types''], Log [], LogError [Cause ''E2''], Log []]"
proof -
  let ?s = "\<lparr>schemaPath = JString '''',
              generateGraphQLSchemaErrors = [\<lparr>message = ''Schema validation failed'', error = ''E1''\<rparr>]\<rparr>"
  let ?t = "\<lparr>typeDefFiles = [JString ''/app/.redwood/types/includes/all-pages.d.ts''],
              generateTypeDefsErrors = [\<lparr>message = ''Error generating types'', error = ''E2''\<rparr>]\<rparr>"
  have files: "length (files (generate ?s ?t)) = 1"
    by (simp add: generate_def Let_def)
  from run_reports_errors [of "''/app''" ?s ?t "\<lparr>exitCode = None, console = []\<rparr>"]
  show ?thesis
    by (simp add: generate_errors print_error_lines_def files) blast
qed

text \<open>
  C4 as first stated, with the exit status non-zero only if an error was collected,
  fails for a run that starts with the exit code already set: nothing is collected,
  and the process still ends with status 2.
\<close>

theorem run_exit_status_counterexample:
  "run ''/app''
      \<lparr>schemaPath = JString ''/app/.redwood/schema.graphql'', generateGraphQLSchemaErrors = []\<rparr>
      \<lparr>typeDefFiles = [], generateTypeDefsErrors = []\<rparr>
      \<lparr>exitCode = Some 2, console = []\<rparr>
     = Inr \<lparr>exitCode = Some 2,
            console = [Log [Str ''Generating...''], Log [],
                       Log [Str ''-'', Str ''.redwood/schema.graphql''], Log [],
                       Log [Str ''... done.''], Log [] :: string console_call]\<rparr>
   \<and> exit_status
       \<lparr>exitCode = Some 2,
        console = [Log [Str ''Generating...''], Log [],
                   Log [Str ''-'', Str ''.redwood/schema.graphql''], Log [],
                   Log [Str ''... done.''], Log [] :: string console_call]\<rparr> = 2
   \<and> errors (generate
       \<lparr>schemaPath = JString ''/app/.redwood/schema.graphql'', generateGraphQLSchemaErrors = []\<rparr>
       \<lparr>typeDefFiles = [], generateTypeDefsErrors = []\<rparr>) = ([] :: string generate_error list)"
  by (simp add: run_def generate_def Let_def console_log_def exit_status_def)

section \<open>Properties of \<open>resolveOptions\<close>\<close>

lemma apply_values_cases:
  "apply_values env values r0 =
     (let r = r0\<lparr>host := (case values_host values of
                            Some h \<Rightarrow> if h \<noteq> [] then h else host r0
                          | None \<Rightarrow> host r0),
                 apiRootPath := (case values_apiRootPath values of
                                   Some a \<Rightarrow> if a \<noteq> [] then a else apiRootPath r0
                                 | None \<Rightarrow> apiRootPath r0)\<rparr>
      in case values_port values of
           None \<Rightarrow> Inr r
         | Some p \<Rightarrow>
             if p = [] then Inr r
             else (case toNumber env p of
                     NaN \<Rightarrow> Inl (Error port_must_be_an_integer)
                   | Num n \<Rightarrow> Inr (r\<lparr>port := Num n\<rparr>)))"
  by (simp add: apply_values_def Let_def split: option.splits number.splits)

text \<open>
  C9, as amended. With argument parsing on and \<^verbatim>\<open>parseArgs\<close> returning its values:
  a non-empty \<^verbatim>\<open>--port\<close> value that converts to \<^verbatim>\<open>NaN\<close> makes \<^verbatim>\<open>resolveOptions\<close> throw
  the error \<^verbatim>\<open>`port` must be an integer\<close>; a non-empty value that converts to a
  number makes that number the resolved port; with no \<^verbatim>\<open>--port\<close> value, or an empty
  one, the port stays the result of \<^verbatim>\<open>getAPIPort()\<close>. When none of port, host and
  apiRootPath is given a non-empty value, host and port are the results of
  \<^verbatim>\<open>getAPIHost()\<close> and \<^verbatim>\<open>getAPIPort()\<close>, and the root path is what \<^verbatim>\<open>coerceRootPath\<close>
  makes of the option \<^verbatim>\<open>apiRootPath\<close>, or of \<^verbatim>\<open>/\<close> when the option is not set.
\<close>

theorem resolveOptions_parsed_args:
  assumes "options_parseArgs options = Some True"
      and "util_parseArgs env args = Inr values"
  shows "(case values_port values of
            None \<Rightarrow> \<exists>r. resolveOptions env options args = Inr r \<and> port r = getAPIPort env
          | Some p \<Rightarrow>
              if p = [] then \<exists>r. resolveOptions env options args = Inr r \<and> port r = getAPIPort env
              else (case toNumber env p of
                      NaN \<Rightarrow> resolveOptions env options args = Inl (Error ''`port` must be an integer'')
                    | Num n \<Rightarrow> \<exists>r. resolveOptions env options args = Inr r \<and> port r = Num n))
       \<and> ((values_host values = None \<or> values_host values = Some [])
          \<and> (values_port values = None \<or> values_port values = Some [])
          \<and> (values_apiRootPath values = None \<or> values_apiRootPath values = Some [])
          \<longrightarrow> (\<exists>r. resolveOptions env options args = Inr r
                   \<and> host r = getAPIHost env
                   \<and> port r = getAPIPort env
                   \<and> apiRootPath r =
                       coerceRootPath env
                         (case options_apiRootPath options of None \<Rightarrow> ''/'' | Some a \<Rightarrow> a)))"
  using assms
  by (auto simp: resolveOptions_def Let_def apply_values_cases port_must_be_an_integer_def
        DEFAULT_apiRootPath_def split: option.splits number.splits)

theorem resolveOptions_parsed_args_witness:
  "resolveOptions
      (example_environment \<lparr>values_host = None, values_port = Some ''abc'', values_apiRootPath = None\<rparr>)
      \<lparr>options_apiRootPath = None, options_logger = None,
       options_fastifyServerOptions = None, options_parseArgs = Some True\<rparr>
      (Some [''--port'', ''abc''])
     = Inl (Error ''`port` must be an integer'')
   \<and> (\<exists>r. resolveOptions
      (example_environment \<lparr>values_host = None, values_port = Some ''8080'', values_apiRootPath = None\<rparr>)
      \<lparr>options_apiRootPath = None, options_logger = None,
       options_fastifyServerOptions = None, options_parseArgs = Some True\<rparr>
      (Some [''--port'', ''8080''])
     = Inr r \<and> port r = Num 8080)
   \<and> (\<exists>r. resolveOptions
      (example_environment \<lparr>values_host = None, values_port = None, values_apiRootPath = None\<rparr>)
      \<lparr>options_apiRootPath = None, options_logger = None,
       options_fastifyServerOptions = None, options_parseArgs = Some True\<rparr>
      (Some [])
     = Inr r \<and> host r = ''::'' \<and> port r = Num 8911 \<and> apiRootPath r = ''/'')"
  using
    resolveOptions_parsed_args
      [of "\<lparr>options_apiRootPath = None, options_logger = None,
             options_fastifyServerOptions = None, options_parseArgs = Some True\<rparr>"
          "example_environment \<lparr>values_host = None, values_port = Some ''abc'', values_apiRootPath = None\<rparr>"
          "Some [''--port'', ''abc'']"
          "\<lparr>values_host = None, values_port = Some ''abc'', values_apiRootPath = None\<rparr>"]
    resolveOptions_parsed_args
      [of "\<lparr>options_apiRootPath = None, options_logger = None,
             options_fastifyServerOptions = None, options_parseArgs = Some True\<rparr>"
          "example_environment \<lparr>values_host = None, values_port = Some ''8080'', values_apiRootPath = None\<rparr>"
          "Some [''--port'', ''8080'']"
          "\<lparr>values_host = None, values_port = Some ''8080'', values_apiRootPath = None\<rparr>"]
    resolveOptions_parsed_args
      [of "\<lparr>options_apiRootPath = None, options_logger = None,
             options_fastifyServerOptions = None, options_parseArgs = Some True\<rparr>"
          "example_environment \<lparr>values_host = None, values_port = None, values_apiRootPath = None\<rparr>"
          "Some []"
          "\<lparr>values_host = None, values_port = None, values_apiRootPath = None\<rparr>"]
  by (simp add: example_environment_def decimal_toNumber_def is_digit_def slash_rootPath_def)

text \<open>
  C9 as first stated promises the converted number for every \<^verbatim>\<open>--port\<close> value
  that converts to one. The empty value (\<^verbatim>\<open>--port ''\<close> or \<^verbatim>\<open>--port=\<close>) converts to
  0, but \<^verbatim>\<open>if (values.port)\<close> skips it as falsy and the port stays the default.
\<close>

theorem resolveOptions_empty_port_counterexample:
  "decimal_toNumber '''' = Num 0
   \<and> resolveOptions
      (example_environment \<lparr>values_host = None, values_port = Some '''', values_apiRootPath = None\<rparr>)
      \<lparr>options_apiRootPath = None, options_logger = None,
       options_fastifyServerOptions = None, options_parseArgs = Some True\<rparr>
      (Some [''--port'', ''''])
     = Inr \<lparr>apiRootPath = ''/'',
            fastifyServerOptions = \<lparr>requestTimeout = Some 15000, fastify_logger = Some ''warn''\<rparr>,
            host = ''::'',
            port = Num 8911\<rparr>"
  by (simp add: resolveOptions_def apply_values_def example_environment_def decimal_toNumber_def
        slash_rootPath_def DEFAULT_apiRootPath_def DEFAULT_requestTimeout_def Let_def)

section \<open>Properties of the route table editor\<close>

lemma split_lines_not_Nil [simp]: "split_lines s \<noteq> []"
  by (induction s) (auto split: list.splits)

lemma join_split_lines [simp]: "join_lines (split_lines s) = s"
proof (induction s)
  case Nil
  then show ?case by simp
next
  case (Cons c cs)
  obtain l ls where ls: "split_lines cs = l # ls"
    by (cases "split_lines cs") auto
  show ?case
  proof (cases "c = newline")
    case True
    then show ?thesis using Cons ls by simp
  next
    case False
    then show ?thesis using Cons ls by (cases ls) auto
  qed
qed

lemma split_lines_no_newline: "l \<in> set (split_lines s) \<Longrightarrow> newline \<notin> set l"
  by (induction s arbitrary: l) (auto split: list.splits if_splits)

lemma split_lines_append_newline:
  "newline \<notin> set l \<Longrightarrow> split_lines (l @ newline # s) = l # split_lines s"
  by (induction l) auto

lemma split_lines_single: "newline \<notin> set l \<Longrightarrow> split_lines l = [l]"
  by (induction l) auto

lemma split_join_lines:
  "ls \<noteq> [] \<Longrightarrow> \<forall>l \<in> set ls. newline \<notin> set l \<Longrightarrow> split_lines (join_lines ls) = ls"
  by (induction ls rule: join_lines.induct)
     (simp_all add: split_lines_single split_lines_append_newline)

lemma remove_first_no_match: "\<forall>x \<in> set xs. \<not> P x \<Longrightarrow> remove_first P xs = xs"
  by (induction xs) auto

lemma remove_first_one_match:
  "length (filter P xs) = 1 \<Longrightarrow>
     \<exists>pre x post. xs = pre @ x # post \<and> P x \<and> (\<forall>y \<in> set (pre @ post). \<not> P y)
        \<and> remove_first P xs = pre @ post"
proof (induction xs)
  case Nil
  then show ?case by simp
next
  case (Cons a xs)
  show ?case
  proof (cases "P a")
    case True
    with Cons.prems have "filter P xs = []" by simp
    then have "\<forall>y \<in> set xs. \<not> P y" by (simp add: filter_empty_conv)
    with True have "a # xs = [] @ a # xs \<and> P a \<and> (\<forall>y \<in> set ([] @ xs). \<not> P y)
        \<and> remove_first P (a # xs) = [] @ xs"
      by simp
    then show ?thesis by blast
  next
    case False
    with Cons.prems have "length (filter P xs) = 1" by simp
    from Cons.IH [OF this] obtain pre x post where
      "xs = pre @ x # post" "P x" "\<forall>y \<in> set (pre @ post). \<not> P y" "remove_first P xs = pre @ post"
      by blast
    with False have "a # xs = (a # pre) @ x # post \<and> P x \<and> (\<forall>y \<in> set ((a # pre) @ post). \<not> P y)
        \<and> remove_first P (a # xs) = (a # pre) @ post"
      by simp
    then show ?thesis by blast
  qed
qed

text \<open>
  The editor does to the table of the test what the two route tests expect: the
  \<^verbatim>\<open>about\<close> line goes, for the default path and for the custom path
  \<^verbatim>\<open>/about-us\<close> alike (the table has no entry with that path; the line is matched by
  its name).
\<close>

lemma test_cleans_up_route:
  "remove_route_line \<lparr>route_path = ''/about'', route_name = ''about''\<rparr> test_routes
     = test_routes_expected"
  by (simp add: remove_route_line_def test_routes_def test_routes_expected_def
        matches_target_def has_attribute_def double_quote_def newline_def)

lemma test_cleans_up_route_with_custom_path:
  "remove_route_line \<lparr>route_path = ''/about-us'', route_name = ''about''\<rparr> test_routes
     = test_routes_expected"
  by (simp add: remove_route_line_def test_routes_def test_routes_expected_def
        matches_target_def has_attribute_def double_quote_def newline_def)

text \<open>
  C1. When exactly one line of the route table matches the target, the route-edit
  task succeeds and writes back the table without that line: the lines before and
  after it, unchanged and in their order, which are all the lines that do not match,
  one line fewer than before. Unless no line is left, reading the new table as lines
  gives exactly these lines.
\<close>

theorem edit_routes_one_match:
  assumes "fs routes = Some table"
      and "length (filter (matches_target rt) (split_lines table)) = 1"
  shows "\<exists>pre l post.
           split_lines table = pre @ l # post
         \<and> matches_target rt l
         \<and> pre @ post = filter (\<lambda>x. \<not> matches_target rt x) (split_lines table)
         \<and> length (pre @ post) + 1 = length (split_lines table)
         \<and> edit_routes routes rt fs = Inr (fs(routes \<mapsto> join_lines (pre @ post)))
         \<and> (pre @ post \<noteq> [] \<longrightarrow> split_lines (join_lines (pre @ post)) = pre @ post)"
proof -
  from remove_first_one_match [OF assms(2)] obtain pre l post where
    sp: "split_lines table = pre @ l # post" and m: "matches_target rt l"
    and nm: "\<forall>y \<in> set (pre @ post). \<not> matches_target rt y"
    and rf: "remove_first (matches_target rt) (split_lines table) = pre @ post"
    by blast
  have f: "pre @ post = filter (\<lambda>x. \<not> matches_target rt x) (split_lines table)"
    using nm m by (simp add: sp)
  have nl: "\<forall>x \<in> set (pre @ post). newline \<notin> set x"
    using split_lines_no_newline [of _ table] by (auto simp: sp)
  have run: "edit_routes routes rt fs = Inr (fs(routes \<mapsto> join_lines (pre @ post)))"
    using assms(1) rf by (simp add: edit_routes_def remove_route_line_def)
  have len: "length (pre @ post) + 1 = length (split_lines table)"
    by (simp add: sp)
  have resplit: "pre @ post \<noteq> [] \<longrightarrow> split_lines (join_lines (pre @ post)) = pre @ post"
    using split_join_lines [OF _ nl] by blast
  from sp m f len run resplit show ?thesis by blast
qed

theorem edit_routes_one_match_witness:
  "[''web/src/Routes.js'' \<mapsto> test_routes] ''web/src/Routes.js'' = Some test_routes
   \<and> length (filter (matches_target \<lparr>route_path = ''/about'', route_name = ''about''\<rparr>)
               (split_lines test_routes)) = 1
   \<and> edit_routes ''web/src/Routes.js'' \<lparr>route_path = ''/about'', route_name = ''about''\<rparr>
        [''web/src/Routes.js'' \<mapsto> test_routes]
       = Inr [''web/src/Routes.js'' \<mapsto> test_routes_expected]"
proof -
  let ?rt = "\<lparr>route_path = ''/about'', route_name = ''about''\<rparr>"
  let ?fs = "[''web/src/Routes.js'' \<mapsto> test_routes]"
  have h1: "?fs ''web/src/Routes.js'' = Some test_routes"
    by simp
  have h2: "length (filter (matches_target ?rt) (split_lines test_routes)) = 1"
    by (simp add: test_routes_def matches_target_def has_attribute_def double_quote_def
          newline_def)
  from edit_routes_one_match [of ?fs "''web/src/Routes.js''" test_routes ?rt, OF h1 h2] obtain pre l post where
    f: "pre @ post = filter (\<lambda>x. \<not> matches_target ?rt x) (split_lines test_routes)"
    and e: "edit_routes ''web/src/Routes.js'' ?rt ?fs
              = Inr (?fs(''web/src/Routes.js'' \<mapsto> join_lines (pre @ post)))"
    by blast
  have "join_lines (filter (\<lambda>x. \<not> matches_target ?rt x) (split_lines test_routes))
          = test_routes_expected"
    by (simp add: test_routes_def test_routes_expected_def matches_target_def
          has_attribute_def double_quote_def newline_def)
  with f have "join_lines (pre @ post) = test_routes_expected"
    by simp
  with e have "edit_routes ''web/src/Routes.js'' ?rt ?fs
                 = Inr [''web/src/Routes.js'' \<mapsto> test_routes_expected]"
    by simp
  with h1 h2 show ?thesis by blast
qed

text \<open>
  C3. When no line of the route table matches the target, the route-edit task
  succeeds (it reports no failure) and the file system after it is the one before
  it: the route table has the text it had, and so has every other file.
\<close>

theorem edit_routes_no_match:
  assumes "fs routes = Some table"
      and "\<forall>l \<in> set (split_lines table). \<not> matches_target rt l"
  shows "edit_routes routes rt fs = Inr fs"
  using assms
  by (simp add: edit_routes_def remove_route_line_def remove_first_no_match fun_upd_idem)

theorem edit_routes_no_match_witness:
  "[''web/src/Routes.js'' \<mapsto> test_routes] ''web/src/Routes.js'' = Some test_routes
   \<and> list_all (\<lambda>l. \<not> matches_target \<lparr>route_path = ''/contact'', route_name = ''contact''\<rparr> l)
        (split_lines test_routes)
   \<and> edit_routes ''web/src/Routes.js'' \<lparr>route_path = ''/contact'', route_name = ''contact''\<rparr>
        [''web/src/Routes.js'' \<mapsto> test_routes]
       = Inr [''web/src/Routes.js'' \<mapsto> test_routes]"
proof -
  let ?rt = "\<lparr>route_path = ''/contact'', route_name = ''contact''\<rparr>"
  let ?fs = "[''web/src/Routes.js'' \<mapsto> test_routes]"
  have h1: "?fs ''web/src/Routes.js'' = Some test_routes"
    by simp
  have h2: "list_all (\<lambda>l. \<not> matches_target ?rt l) (split_lines test_routes)"
    by (simp add: test_routes_def matches_target_def has_attribute_def double_quote_def
          newline_def)
  then have h2': "\<forall>l \<in> set (split_lines test_routes). \<not> matches_target ?rt l"
    by (simp add: list_all_iff)
  from edit_routes_no_match [of ?fs "''web/src/Routes.js''" test_routes ?rt, OF h1 h2'] h1 h2
  show ?thesis by blast
qed

end
